theory Spec2Isabelle
  imports Main
begin

section \<open>Data model\<close>

text \<open>
  The alias channels of the package. The view classes of \<^verbatim>\<open>views.py\<close> carry them as the
  strings \<^verbatim>\<open>'email'\<close> and \<^verbatim>\<open>'mobile'\<close>; \<open>alias_name\<close> gives that string back.
\<close>

datatype alias_type = EMAIL | MOBILE

fun alias_name :: "alias_type \<Rightarrow> string" where
  "alias_name EMAIL = ''email''"
| "alias_name MOBILE = ''mobile''"

text \<open>
  A Django user row, reduced to what the views and the token lifecycle touch: the primary
  key, the two aliases and the password, which is either a usable hash or marked unusable
  (\<^verbatim>\<open>set_unusable_password\<close>).
\<close>

datatype password = Usable string | Unusable

record user =
  pk :: nat
  email :: string
  mobile :: string
  password :: password

definition set_unusable_password :: "user \<Rightarrow> user" where
  "set_unusable_password u = u\<lparr>password := Unusable\<rparr>"

text \<open>
  A row of the token store, with the persisted layout
  \<^verbatim>\<open>{key, user_id, alias_type, to_alias, is_active, created_at}\<close>. Timestamps are whole
  seconds. The store is the list of its rows in insertion order: migration
  \<^verbatim>\<open>0002_callbacktoken_remove_unique\<close> drops the uniqueness of \<^verbatim>\<open>key\<close>, so two rows may carry
  the same key, and a list keeps both.
\<close>

record callback_token =
  key :: string
  user_id :: nat
  to_alias_type :: alias_type
  to_alias :: string
  is_active :: bool
  created_at :: int

text \<open>
  The database: the user table, the table of session credentials
  (\<^verbatim>\<open>rest_framework.authtoken.models.Token\<close>, one row per user, here user key to token key)
  and the callback token store.
\<close>

record db =
  users :: "nat \<rightharpoonup> user"
  auth_tokens :: "nat \<rightharpoonup> string"
  callback_tokens :: "callback_token list"

text \<open>The options of \<^verbatim>\<open>api_settings\<close> that the modelled code reads.\<close>

record api_settings =
  PASSWORDLESS_AUTH_TYPES :: "string list"
  TOKEN_LENGTH :: nat
  TOKEN_EXPIRY_MINUTES :: int

section \<open>The framework as the views use it\<close>

text \<open>
  A request carries its parsed data and the key of the authenticated user, if any
  (\<^verbatim>\<open>request.user.id\<close>). A response is a body with a status code; a view can also leave by an
  exception.
\<close>

record request =
  data :: "(string \<times> string) list"
  request_user :: "nat option"

datatype serializer_context = NoContext | RequestContext request | UserIdContext "nat option"

type_synonym detail = "(string \<times> string list) list"

datatype exc = ValidationError detail | KeyError string

datatype body = NoData | Data "(string \<times> string) list"

datatype outcome = Response body nat | Raised exc

definition HTTP_200_OK :: nat where "HTTP_200_OK = 200"
definition HTTP_400_BAD_REQUEST :: nat where "HTTP_400_BAD_REQUEST = 400"
definition HTTP_404_NOT_FOUND :: nat where "HTTP_404_NOT_FOUND = 404"

text \<open>
  A serializer after its validation has run: the error dictionary (empty when the data
  were valid), the validated data, and the class's table of error messages. The serializer
  classes themselves are not part of the modelled files, so a view receives its
  \<^verbatim>\<open>serializer_class\<close> as a function from the request data, the context and the database to
  the validated serializer and the database its validation leaves.
\<close>

record serializer =
  errors :: detail
  validated_data :: "(string \<times> user) list"
  error_messages :: "(string \<times> string) list"

type_synonym serializer_class =
  "(string \<times> string) list \<Rightarrow> serializer_context \<Rightarrow> db \<Rightarrow> serializer \<times> db"

text \<open>
  \<^verbatim>\<open>Serializer.is_valid(raise_exception)\<close> of the REST framework: with errors and
  \<^verbatim>\<open>raise_exception\<close> it raises \<^verbatim>\<open>ValidationError(self.errors)\<close>, otherwise it returns whether
  the error dictionary is empty.
\<close>

definition is_valid :: "bool \<Rightarrow> serializer \<Rightarrow> exc + bool" where
  "is_valid raise_exception s =
     (if errors s \<noteq> [] \<and> raise_exception then Inl (ValidationError (errors s))
      else Inr (errors s = []))"

text \<open>\<^verbatim>\<open>str.upper()\<close> on ASCII text, which is all the alias names contain.\<close>

definition upper_char :: "char \<Rightarrow> char" where
  "upper_char c =
     (let n = (of_char c :: nat) in if 97 \<le> n \<and> n \<le> 122 then char_of (n - 32) else c)"

definition upper :: "string \<Rightarrow> string" where
  "upper s = map upper_char s"

section \<open>Token generator and issuance\<close>

text \<open>The decimal numeral of a natural number, most significant digit first.\<close>

definition digit_char :: "nat \<Rightarrow> char" where
  "digit_char d = ''0123456789'' ! d"

fun decimal :: "nat \<Rightarrow> string" where
  "decimal n = (if n < 10 then [digit_char n] else decimal (n div 10) @ [digit_char (n mod 10)])"

declare decimal.simps [simp del]

definition is_digit :: "char \<Rightarrow> bool" where
  "is_digit c = (c \<in> set ''0123456789'')"

text \<open>\<^verbatim>\<open>str.zfill\<close>: zeros on the left up to the width, nothing cut off.\<close>

definition zfill :: "nat \<Rightarrow> string \<Rightarrow> string" where
  "zfill w s = replicate (w - length s) (CHR ''0'') @ s"

text \<open>
  The random value behind a key: the draw \<open>r\<close> of the random source brought into the range of
  numbers with at most \<^verbatim>\<open>TOKEN_LENGTH\<close> decimal digits.
\<close>

definition random_value :: "api_settings \<Rightarrow> nat \<Rightarrow> nat" where
  "random_value cfg r = r mod 10 ^ TOKEN_LENGTH cfg"

text \<open>
  Modelled from the spec: \<^verbatim>\<open>drfpasswordless.models.generate_numeric_token\<close>, which the
  migration names as the default of \<^verbatim>\<open>key\<close> and whose body is not among the modelled files.
  Section 4.1: a random numeric string of the configured fixed length, left-padded with
  zeros if necessary so that the length is always exact. The string is the decimal numeral
  of the random value, padded to the length; for a length of zero it is empty.
\<close>

definition generate_numeric_token :: "api_settings \<Rightarrow> nat \<Rightarrow> string" where
  "generate_numeric_token cfg r =
     (if TOKEN_LENGTH cfg = 0 then []
      else zfill (TOKEN_LENGTH cfg) (decimal (random_value cfg r)))"

definition alias_value :: "user \<Rightarrow> alias_type \<Rightarrow> string" where
  "alias_value u a = (case a of EMAIL \<Rightarrow> email u | MOBILE \<Rightarrow> mobile u)"

definition deactivate :: "callback_token \<Rightarrow> callback_token" where
  "deactivate t = t\<lparr>is_active := False\<rparr>"

text \<open>What issuance for a (user, alias type) pair does to a stored row.\<close>

definition supersede :: "user \<Rightarrow> alias_type \<Rightarrow> callback_token \<Rightarrow> callback_token" where
  "supersede u a t =
     (if user_id t = pk u \<and> to_alias_type t = a \<and> is_active t then deactivate t else t)"

text \<open>
  Modelled from the spec: \<^verbatim>\<open>utils.create_callback_token_for_user\<close>, imported by the views
  and not among the modelled files. Section 4.2: deactivate every active token of the
  (user, alias type) pair, generate a key, persist a new active row whose \<^verbatim>\<open>to_alias\<close> is the
  user's current alias of that type, and return it. \<open>now\<close> is the clock and \<open>r\<close> the random
  draw of the generator.
\<close>

definition create_callback_token_for_user ::
  "api_settings \<Rightarrow> int \<Rightarrow> nat \<Rightarrow> user \<Rightarrow> alias_type \<Rightarrow> callback_token list
     \<Rightarrow> callback_token \<times> callback_token list" where
  "create_callback_token_for_user cfg now r u a store =
     (let superseded = map (supersede u a) store;
          token = \<lparr>key = generate_numeric_token cfg r, user_id = pk u, to_alias_type = a,
                   to_alias = alias_value u a, is_active = True, created_at = now\<rparr>
      in (token, superseded @ [token]))"

section \<open>The views that issue a callback token\<close>

text \<open>
  The class attributes of \<^verbatim>\<open>AbstractBaseObtainCallbackToken\<close> that \<^verbatim>\<open>post\<close> reads. The message
  payload is handed to the sender unchanged and is part of the \<^verbatim>\<open>send_action\<close> argument here.
\<close>

record obtain_view =
  view_alias_type :: alias_type
  success_response :: string
  failure_response :: string

definition ObtainEmailCallbackToken :: obtain_view where
  "ObtainEmailCallbackToken =
     \<lparr>view_alias_type = EMAIL,
      success_response = ''A login token has been sent to your email.'',
      failure_response = ''Unable to email you a login code. Try again later.''\<rparr>"

definition ObtainMobileCallbackToken :: obtain_view where
  "ObtainMobileCallbackToken =
     \<lparr>view_alias_type = MOBILE,
      success_response = ''We texted you a login code.'',
      failure_response = ''Unable to send you a login code. Try again later.''\<rparr>"

definition ObtainEmailVerificationCallbackToken :: obtain_view where
  "ObtainEmailVerificationCallbackToken =
     \<lparr>view_alias_type = EMAIL,
      success_response = ''A verification token has been sent to your email.'',
      failure_response = ''Unable to email you a verification code. Try again later.''\<rparr>"

definition ObtainMobileVerificationCallbackToken :: obtain_view where
  "ObtainMobileVerificationCallbackToken =
     \<lparr>view_alias_type = MOBILE,
      success_response = ''We texted you a verification code.'',
      failure_response = ''Unable to send you a verification code. Try again later.''\<rparr>"

text \<open>
  \<^verbatim>\<open>AbstractBaseObtainCallbackToken.post\<close>. The alias type is checked against the enabled
  types first; then the serializer validates (raising on errors), the token is created in
  the store, the sender is called with the user and the created token, and its boolean
  picks the response. \<^verbatim>\<open>validated_data['user']\<close> raises \<^verbatim>\<open>KeyError\<close> on a missing key.
\<close>

definition obtain_post ::
  "api_settings \<Rightarrow> obtain_view \<Rightarrow> serializer_class \<Rightarrow> (user \<Rightarrow> callback_token \<Rightarrow> bool)
     \<Rightarrow> int \<Rightarrow> nat \<Rightarrow> request \<Rightarrow> db \<Rightarrow> outcome \<times> db" where
  "obtain_post cfg view serializer_class send_action now r req d =
     (if upper (alias_name (view_alias_type view)) \<notin> set (PASSWORDLESS_AUTH_TYPES cfg)
      then (Response NoData HTTP_404_NOT_FOUND, d)
      else
        (case serializer_class (data req) (RequestContext req) d of (ser, d1) \<Rightarrow>
           (case is_valid True ser of
              Inl e \<Rightarrow> (Raised e, d1)
            | Inr True \<Rightarrow>
                (case map_of (validated_data ser) ''user'' of
                   None \<Rightarrow> (Raised (KeyError ''user''), d1)
                 | Some u \<Rightarrow>
                     (case create_callback_token_for_user cfg now r u (view_alias_type view)
                             (callback_tokens d1) of
                        (token, store) \<Rightarrow>
                          (let success = send_action u token;
                               status_code = (if success then HTTP_200_OK
                                              else HTTP_400_BAD_REQUEST);
                               response_detail = (if success then success_response view
                                                  else failure_response view)
                           in (Response (Data [(''detail'', response_detail)]) status_code,
                               d1\<lparr>callback_tokens := store\<rparr>))))
            | Inr False \<Rightarrow> (Response (Data (error_messages ser)) HTTP_400_BAD_REQUEST, d1))))"

section \<open>The views that redeem a callback token\<close>

text \<open>
  A row of the session credential table as \<^verbatim>\<open>Token.objects.get_or_create(user=user)\<close>
  returns it, with the flag telling whether the row was created by the call. \<open>fresh\<close> is the
  random key a created row gets.
\<close>

record auth_token =
  token_key :: string
  token_user :: nat

definition get_or_create ::
  "string \<Rightarrow> user \<Rightarrow> (nat \<rightharpoonup> string) \<Rightarrow> (auth_token \<times> bool) \<times> (nat \<rightharpoonup> string)" where
  "get_or_create fresh u toks =
     (case toks (pk u) of
        Some k \<Rightarrow> ((\<lparr>token_key = k, token_user = pk u\<rparr>, False), toks)
      | None \<Rightarrow> ((\<lparr>token_key = fresh, token_user = pk u\<rparr>, True), toks(pk u \<mapsto> fresh)))"

text \<open>
  The truth value Python gives a model instance in \<^verbatim>\<open>if token:\<close>. The model class defines
  neither \<^verbatim>\<open>__bool__\<close> nor \<^verbatim>\<open>__len__\<close>, so every instance counts as true.
\<close>

definition truthy :: "auth_token \<Rightarrow> bool" where
  "truthy t = True"

definition save :: "user \<Rightarrow> db \<Rightarrow> db" where
  "save u d = d\<lparr>users := (users d)(pk u \<mapsto> u)\<rparr>"

definition login_failure :: outcome where
  "login_failure =
     Response (Data [(''detail'', ''Couldn't log you in. Try again later.'')])
       HTTP_400_BAD_REQUEST"

definition verify_failure :: outcome where
  "verify_failure =
     Response (Data [(''detail'', ''We couldn't verify this alias. Try again later.'')])
       HTTP_400_BAD_REQUEST"

text \<open>
  \<^verbatim>\<open>AbstractBaseObtainAuthToken.post\<close>, which \<^verbatim>\<open>ObtainAuthTokenFromCallbackToken\<close> inherits
  unchanged. The serializer is built from the request data alone. The two
  \<^verbatim>\<open>log.error\<close> calls write to the log only and are left out.
\<close>

definition auth_post :: "serializer_class \<Rightarrow> string \<Rightarrow> request \<Rightarrow> db \<Rightarrow> outcome \<times> db" where
  "auth_post serializer_class fresh req d =
     (case serializer_class (data req) NoContext d of (ser, d1) \<Rightarrow>
        (case is_valid True ser of
           Inl e \<Rightarrow> (Raised e, d1)
         | Inr True \<Rightarrow>
             (case map_of (validated_data ser) ''user'' of
                None \<Rightarrow> (Raised (KeyError ''user''), d1)
              | Some u \<Rightarrow>
                  (case get_or_create fresh u (auth_tokens d1) of
                     ((token, created), toks) \<Rightarrow>
                       (let d2 = d1\<lparr>auth_tokens := toks\<rparr>;
                            d3 = (if created then save (set_unusable_password u) d2 else d2)
                        in if truthy token
                           then (Response (Data [(''token'', token_key token)]) HTTP_200_OK, d3)
                           else (login_failure, d3))))
         | Inr False \<Rightarrow> (login_failure, d1)))"

text \<open>
  \<^verbatim>\<open>VerifyAliasFromCallbackToken.post\<close>. The serializer gets the key of the requesting user
  as its context.
\<close>

definition verify_post :: "serializer_class \<Rightarrow> request \<Rightarrow> db \<Rightarrow> outcome \<times> db" where
  "verify_post serializer_class req d =
     (case serializer_class (data req) (UserIdContext (request_user req)) d of (ser, d1) \<Rightarrow>
        (case is_valid True ser of
           Inl e \<Rightarrow> (Raised e, d1)
         | Inr True \<Rightarrow> (Response (Data [(''detail'', ''Alias verified.'')]) HTTP_200_OK, d1)
         | Inr False \<Rightarrow> (verify_failure, d1)))"

section \<open>Token matcher\<close>

datatype token_error =
  InvalidOrExpiredToken | AmbiguousToken | TokenUserMismatch | AliasTypeDisabled | DeliveryFailed

definition expiry_window :: "api_settings \<Rightarrow> int" where
  "expiry_window cfg = 60 * TOKEN_EXPIRY_MINUTES cfg"

text \<open>
  Modelled from the spec: the query of the matcher, which lives in the serializers and is
  not among the modelled files. Section 4.3, step 1: the rows with the presented key and
  alias type that are active and whose \<^verbatim>\<open>created_at + window >= now\<close>.
\<close>

definition matchable :: "api_settings \<Rightarrow> int \<Rightarrow> string \<Rightarrow> alias_type \<Rightarrow> callback_token \<Rightarrow> bool" where
  "matchable cfg now k a t =
     (key t = k \<and> to_alias_type t = a \<and> is_active t \<and> created_at t + expiry_window cfg \<ge> now)"

definition candidates ::
  "api_settings \<Rightarrow> int \<Rightarrow> string \<Rightarrow> alias_type \<Rightarrow> callback_token list \<Rightarrow> callback_token list" where
  "candidates cfg now k a store = filter (matchable cfg now k a) store"

text \<open>What a successful presentation does to a stored row: the matched row is deactivated.\<close>

definition consume ::
  "api_settings \<Rightarrow> int \<Rightarrow> string \<Rightarrow> alias_type \<Rightarrow> callback_token \<Rightarrow> callback_token" where
  "consume cfg now k a x = (if matchable cfg now k a x then deactivate x else x)"

text \<open>
  Modelled from the spec: the matcher, section 4.3, steps 2 to 5. No match fails with
  \<^verbatim>\<open>InvalidOrExpiredToken\<close>, more than one with \<^verbatim>\<open>AmbiguousToken\<close>; the single match resolves
  its user, fails with \<^verbatim>\<open>TokenUserMismatch\<close> against a different expected user, and is
  otherwise consumed: the matched row is deactivated in the store and the user returned.
\<close>

definition match_token ::
  "api_settings \<Rightarrow> int \<Rightarrow> string \<Rightarrow> alias_type \<Rightarrow> nat option \<Rightarrow> callback_token list
     \<Rightarrow> token_error + (nat \<times> callback_token list)" where
  "match_token cfg now k a expected store =
     (let ms = candidates cfg now k a store in
      if ms = [] then Inl InvalidOrExpiredToken
      else if length ms > 1 then Inl AmbiguousToken
      else
        (let t = hd ms in
         if (case expected of Some eu \<Rightarrow> user_id t \<noteq> eu | None \<Rightarrow> False)
         then Inl TokenUserMismatch
         else Inr (user_id t, map (consume cfg now k a) store)))"

text \<open>
  The active rows of a (user, alias type) pair, and the store invariant that no pair has
  more than one.
\<close>

definition active_for :: "nat \<Rightarrow> alias_type \<Rightarrow> callback_token list \<Rightarrow> callback_token list" where
  "active_for v a store = filter (\<lambda>t. user_id t = v \<and> to_alias_type t = a \<and> is_active t) store"


section \<open>Example data\<close>

definition example_settings :: api_settings where
  "example_settings =
     \<lparr>PASSWORDLESS_AUTH_TYPES = [''EMAIL''], TOKEN_LENGTH = 6, TOKEN_EXPIRY_MINUTES = 15\<rparr>"

definition example_user :: user where
  "example_user = \<lparr>pk = 1, email = ''u1@example.com'', mobile = ''+15550100'',
                    password = Usable ''pbkdf2_sha256$hash''\<rparr>"

definition example_db :: db where
  "example_db = \<lparr>users = [1 \<mapsto> example_user], auth_tokens = Map.empty, callback_tokens = []\<rparr>"

definition example_request :: request where
  "example_request = \<lparr>data = [(''token'', ''482913'')], request_user = Some 1\<rparr>"

text \<open>Two stand-ins for a serializer class: one accepts and resolves a user, one rejects.\<close>

definition accepting :: "user \<Rightarrow> serializer_class" where
  "accepting u dat ctx d =
     (\<lparr>errors = [], validated_data = [(''user'', u)], error_messages = []\<rparr>, d)"

definition rejecting :: "detail \<Rightarrow> serializer_class" where
  "rejecting e dat ctx d = (\<lparr>errors = e, validated_data = [], error_messages = []\<rparr>, d)"

definition never_delivers :: "user \<Rightarrow> callback_token \<Rightarrow> bool" where
  "never_delivers u t = False"

definition example_token :: callback_token where
  "example_token = \<lparr>key = ''482913'', user_id = 1, to_alias_type = EMAIL,
                     to_alias = ''u1@example.com'', is_active = True, created_at = 1000\<rparr>"

definition colliding_token :: callback_token where
  "colliding_token = \<lparr>key = ''482913'', user_id = 2, to_alias_type = EMAIL,
                       to_alias = ''u2@example.com'', is_active = True, created_at = 1300\<rparr>"



section \<open>Evaluating the examples\<close>

lemma digit_char_simps:
  "digit_char 0 = CHR ''0''" "digit_char (Suc 0) = CHR ''1''" "digit_char 2 = CHR ''2''"
  "digit_char 3 = CHR ''3''" "digit_char 4 = CHR ''4''" "digit_char 5 = CHR ''5''"
  "digit_char 6 = CHR ''6''" "digit_char 7 = CHR ''7''" "digit_char 8 = CHR ''8''"
  "digit_char 9 = CHR ''9''"
  by (simp_all add: digit_char_def eval_nat_numeral)

lemma example_decimal: "decimal 482913 = ''482913''"
  by (simp add: decimal.simps digit_char_simps)

lemma example_key: "generate_numeric_token example_settings 482913 = ''482913''"
  by (simp add: generate_numeric_token_def random_value_def example_decimal zfill_def
      example_settings_def)

lemma padded_decimal: "decimal 7 = ''7''"
  by (simp add: decimal.simps digit_char_simps)

lemma padded_key: "generate_numeric_token example_settings 7 = ''000007''"
proof -
  have "zfill 6 ''7'' = ''000007''"
    by (simp add: zfill_def eval_nat_numeral)
  then show ?thesis
    by (simp add: generate_numeric_token_def random_value_def padded_decimal
        example_settings_def)
qed

lemma overlong_decimal: "decimal 234567 = ''234567''"
  by (simp add: decimal.simps digit_char_simps)

lemma overlong_key: "generate_numeric_token example_settings 1234567 = ''234567''"
  by (simp add: generate_numeric_token_def random_value_def overlong_decimal zfill_def
      example_settings_def)

lemma example_issue:
  "create_callback_token_for_user example_settings 1000 482913 example_user EMAIL []
     = (example_token, [example_token])"
  by (simp add: create_callback_token_for_user_def example_key example_user_def
      example_token_def alias_value_def Let_def)

section \<open>Issuing views\<close>

text \<open>
  Claim C9. An obtain-token request on a view whose alias type, upper-cased, is not listed
  in \<^verbatim>\<open>PASSWORDLESS_AUTH_TYPES\<close> is answered with 404 and no body. The answer does not depend
  on the serializer or the sender, and the database is returned as it was received: nothing
  was validated and no token was created.
\<close>

theorem obtain_post_disabled_alias_not_found:
  assumes "upper (alias_name (view_alias_type view)) \<notin> set (PASSWORDLESS_AUTH_TYPES cfg)"
  shows "obtain_post cfg view serializer_class send_action now r req d
           = (Response NoData HTTP_404_NOT_FOUND, d)"
  using assms by (simp add: obtain_post_def)

theorem obtain_post_disabled_alias_not_found_witness:
  "upper (alias_name (view_alias_type ObtainMobileCallbackToken))
      \<notin> set (PASSWORDLESS_AUTH_TYPES example_settings)
   \<and> obtain_post example_settings ObtainMobileCallbackToken (accepting example_user)
        never_delivers 0 482913 example_request example_db
      = (Response NoData HTTP_404_NOT_FOUND, example_db)"
proof -
  have h: "upper (alias_name (view_alias_type ObtainMobileCallbackToken))
             \<notin> set (PASSWORDLESS_AUTH_TYPES example_settings)"
    by code_simp
  from obtain_post_disabled_alias_not_found [OF h] h show ?thesis by simp
qed

lemma supersede_fields:
  "key (supersede u a t) = key t" "user_id (supersede u a t) = user_id t"
  "to_alias_type (supersede u a t) = to_alias_type t"
  "created_at (supersede u a t) = created_at t"
  by (simp_all add: supersede_def deactivate_def)

lemma supersede_active:
  "is_active (supersede u a t)
     \<longleftrightarrow> is_active t \<and> \<not> (user_id t = pk u \<and> to_alias_type t = a)"
  by (auto simp: supersede_def deactivate_def)

lemma issue_store:
  assumes "create_callback_token_for_user cfg now r u a store = (token, store')"
  shows "store' = map (supersede u a) store @ [token]"
  using assms by (auto simp: create_callback_token_for_user_def Let_def)

lemma active_for_superseded: "active_for (pk u) a (map (supersede u a) store) = []"
  by (induction store) (simp_all add: active_for_def supersede_fields supersede_active)

lemma active_for_issue:
  assumes "create_callback_token_for_user cfg now r u a store = (token, store')"
  shows "active_for (pk u) a store' = [token]"
proof -
  have "active_for (pk u) a [token] = [token]"
    using assms by (auto simp: create_callback_token_for_user_def Let_def active_for_def)
  with active_for_superseded [of u a store] show ?thesis
    by (simp add: issue_store [OF assms] active_for_def)
qed

lemma issue_token_fields:
  assumes "create_callback_token_for_user cfg now r u a store = (token, store')"
  shows "token \<in> set store'" and "is_active token" and "user_id token = pk u"
    and "to_alias_type token = a" and "created_at token = now"
    and "key token = generate_numeric_token cfg r"
  using assms by (auto simp: create_callback_token_for_user_def Let_def)

text \<open>
  Claim C6. On an enabled alias type with a valid request, the view creates the token in the
  store and hands that created token to the sender. When the sender reports failure, the
  response is 400 with the view's failure message, and the database the view leaves is the
  one issuance produced: the new token is in the store, active, and the only active token
  of its (user, alias type) pair. Nothing is rolled back.
\<close>

theorem obtain_post_delivery_failure_keeps_token:
  assumes "upper (alias_name (view_alias_type view)) \<in> set (PASSWORDLESS_AUTH_TYPES cfg)"
    and "serializer_class (data req) (RequestContext req) d = (ser, d1)"
    and "errors ser = []"
    and "map_of (validated_data ser) ''user'' = Some u"
    and "create_callback_token_for_user cfg now r u (view_alias_type view) (callback_tokens d1)
           = (token, store)"
    and "\<not> send_action u token"
  shows "obtain_post cfg view serializer_class send_action now r req d
           = (Response (Data [(''detail'', failure_response view)]) HTTP_400_BAD_REQUEST,
              d1\<lparr>callback_tokens := store\<rparr>)
         \<and> token \<in> set store \<and> is_active token
         \<and> active_for (pk u) (view_alias_type view) store = [token]"
proof -
  have "obtain_post cfg view serializer_class send_action now r req d
           = (Response (Data [(''detail'', failure_response view)]) HTTP_400_BAD_REQUEST,
              d1\<lparr>callback_tokens := store\<rparr>)"
    using assms by (simp add: obtain_post_def is_valid_def)
  moreover note issue_token_fields(1,2) [OF assms(5)] active_for_issue [OF assms(5)]
  ultimately show ?thesis by simp
qed

theorem obtain_post_delivery_failure_keeps_token_witness:
  "upper (alias_name (view_alias_type ObtainEmailCallbackToken))
      \<in> set (PASSWORDLESS_AUTH_TYPES example_settings)
   \<and> create_callback_token_for_user example_settings 1000 482913 example_user EMAIL
        (callback_tokens example_db) = (example_token, [example_token])
   \<and> \<not> never_delivers example_user example_token
   \<and> obtain_post example_settings ObtainEmailCallbackToken (accepting example_user)
        never_delivers 1000 482913 example_request example_db
      = (Response (Data [(''detail'', ''Unable to email you a login code. Try again later.'')])
           HTTP_400_BAD_REQUEST,
         example_db\<lparr>callback_tokens := [example_token]\<rparr>)
   \<and> example_token \<in> set [example_token] \<and> is_active example_token"
proof -
  have h1: "upper (alias_name (view_alias_type ObtainEmailCallbackToken))
              \<in> set (PASSWORDLESS_AUTH_TYPES example_settings)"
    by code_simp
  have h2: "accepting example_user (data example_request) (RequestContext example_request)
              example_db
            = (\<lparr>errors = [], validated_data = [(''user'', example_user)],
                error_messages = []\<rparr>, example_db)"
    by (simp add: accepting_def)
  have h3: "errors \<lparr>errors = [], validated_data = [(''user'', example_user)],
                    error_messages = []\<rparr> = []"
    by simp
  have h4: "map_of (validated_data \<lparr>errors = [], validated_data = [(''user'', example_user)],
                    error_messages = []\<rparr>) ''user'' = Some example_user"
    by simp
  have h5: "create_callback_token_for_user example_settings 1000 482913 example_user
              (view_alias_type ObtainEmailCallbackToken) (callback_tokens example_db)
            = (example_token, [example_token])"
    using example_issue by (simp add: ObtainEmailCallbackToken_def example_db_def)
  have h6: "\<not> never_delivers example_user example_token"
    by (simp add: never_delivers_def)
  from obtain_post_delivery_failure_keeps_token
         [where serializer_class = "accepting example_user" and send_action = never_delivers,
          OF h1 h2 h3 h4 h5 h6] h1 h5 h6
  show ?thesis by (simp add: ObtainEmailCallbackToken_def)
qed

section \<open>Redeeming views\<close>

lemma is_valid_raising_cases:
  "is_valid True s = (if errors s \<noteq> [] then Inl (ValidationError (errors s)) else Inr True)"
  by (simp add: is_valid_def)

text \<open>
  Claim C5. With \<^verbatim>\<open>raise_exception=True\<close> the validity test never returns false, and a created
  or fetched credential row always counts as true, so neither redeeming view can answer
  with its generic failure body, whatever the serializer, the request and the database
  are. A request whose validation leaves errors exits by the raised
  \<^verbatim>\<open>ValidationError\<close> that carries the serializer's own error dictionary.
\<close>

theorem redeem_generic_failure_unreachable:
  "fst (auth_post serializer_class fresh req d) \<noteq> login_failure
   \<and> fst (verify_post serializer_class req d) \<noteq> verify_failure
   \<and> (errors (fst (serializer_class (data req) NoContext d)) \<noteq> [] \<longrightarrow>
        fst (auth_post serializer_class fresh req d)
          = Raised (ValidationError (errors (fst (serializer_class (data req) NoContext d)))))
   \<and> (errors (fst (serializer_class (data req) (UserIdContext (request_user req)) d)) \<noteq> [] \<longrightarrow>
        fst (verify_post serializer_class req d)
          = Raised (ValidationError
              (errors (fst (serializer_class (data req) (UserIdContext (request_user req)) d)))))"
  by (auto simp: auth_post_def verify_post_def is_valid_raising_cases login_failure_def
      verify_failure_def truthy_def Let_def HTTP_200_OK_def HTTP_400_BAD_REQUEST_def
      split: prod.splits option.splits)

theorem redeem_generic_failure_unreachable_witness:
  "errors (fst (rejecting [(''token'', [''Invalid Token''])] (data example_request) NoContext
                 example_db)) \<noteq> []
   \<and> errors (fst (rejecting [(''token'', [''Invalid Token''])] (data example_request)
                 (UserIdContext (request_user example_request)) example_db)) \<noteq> []
   \<and> fst (auth_post (rejecting [(''token'', [''Invalid Token''])]) ''9944b09199c6''
            example_request example_db)
       = Raised (ValidationError [(''token'', [''Invalid Token''])])
   \<and> fst (verify_post (rejecting [(''token'', [''Invalid Token''])]) example_request example_db)
       = Raised (ValidationError [(''token'', [''Invalid Token''])])
   \<and> fst (auth_post (rejecting [(''token'', [''Invalid Token''])]) ''9944b09199c6''
            example_request example_db)
       \<noteq> login_failure
   \<and> fst (verify_post (rejecting [(''token'', [''Invalid Token''])]) example_request example_db)
       \<noteq> verify_failure"
  using redeem_generic_failure_unreachable
          [of "rejecting [(''token'', [''Invalid Token''])]" "''9944b09199c6''"
              example_request example_db]
  by (simp add: rejecting_def login_failure_def verify_failure_def)

text \<open>
  Claim C1, evaluated on the code. An existing user who holds a usable password and has no
  session credential yet redeems a token: the exchange succeeds, the credential row is
  created, and the saved user row has its password marked unusable. The view tests the
  \<^verbatim>\<open>created\<close> flag of the credential, not whether the user is new.
\<close>

theorem auth_post_existing_user_loses_password:
  "users example_db 1 = Some example_user
   \<and> password example_user = Usable ''pbkdf2_sha256$hash''
   \<and> auth_tokens example_db 1 = None
   \<and> fst (auth_post (accepting example_user) ''9944b09199c6'' example_request example_db)
       = Response (Data [(''token'', ''9944b09199c6'')]) HTTP_200_OK
   \<and> map_option password
        (users (snd (auth_post (accepting example_user) ''9944b09199c6'' example_request
                       example_db)) 1)
       = Some Unusable"
  by (simp add: auth_post_def accepting_def example_db_def example_user_def is_valid_def
      get_or_create_def save_def set_unusable_password_def truthy_def)

text \<open>
  Claim C4, evaluated on the code. Two failing redemption requests whose serializers report
  different errors are answered differently by each redeeming view: each exits by the
  \<^verbatim>\<open>ValidationError\<close> carrying the serializer's error dictionary, and none is answered with
  the generic failure body of the view.
\<close>

theorem redeem_failures_expose_serializer_detail:
  "fst (auth_post (rejecting [(''token'', [''Invalid Token''])]) ''9944b09199c6''
          example_request example_db)
     = Raised (ValidationError [(''token'', [''Invalid Token''])])
   \<and> fst (auth_post (rejecting [(''non_field_errors'', [''Token does not belong to this user''])])
            ''9944b09199c6'' example_request example_db)
     = Raised (ValidationError [(''non_field_errors'', [''Token does not belong to this user''])])
   \<and> fst (verify_post (rejecting [(''token'', [''Invalid Token''])]) example_request example_db)
     = Raised (ValidationError [(''token'', [''Invalid Token''])])
   \<and> fst (verify_post (rejecting [(''non_field_errors'', [''Token does not belong to this user''])])
            example_request example_db)
     = Raised (ValidationError [(''non_field_errors'', [''Token does not belong to this user''])])
   \<and> fst (auth_post (rejecting [(''token'', [''Invalid Token''])]) ''9944b09199c6''
            example_request example_db)
     \<noteq> fst (auth_post (rejecting [(''non_field_errors'', [''Token does not belong to this user''])])
            ''9944b09199c6'' example_request example_db)
   \<and> fst (auth_post (rejecting [(''token'', [''Invalid Token''])]) ''9944b09199c6''
            example_request example_db)
     \<noteq> login_failure
   \<and> fst (verify_post (rejecting [(''token'', [''Invalid Token''])]) example_request example_db)
     \<noteq> fst (verify_post (rejecting [(''non_field_errors'', [''Token does not belong to this user''])])
            example_request example_db)
   \<and> fst (verify_post (rejecting [(''token'', [''Invalid Token''])]) example_request example_db)
     \<noteq> verify_failure"
  by (simp add: auth_post_def verify_post_def rejecting_def is_valid_def login_failure_def
      verify_failure_def)

section \<open>Matcher\<close>

lemma match_token_success:
  assumes "match_token cfg now k a expected store = Inr (v, store')"
  shows "\<exists>t. candidates cfg now k a store = [t] \<and> user_id t = v"
    and "store' = map (consume cfg now k a) store"
proof -
  let ?ms = "candidates cfg now k a store"
  from assms have ne: "?ms \<noteq> []" and le: "\<not> length ?ms > 1"
    by (auto simp: match_token_def Let_def split: if_splits)
  then obtain t where t: "?ms = [t]"
    by (cases ?ms) auto
  with assms show "\<exists>t. candidates cfg now k a store = [t] \<and> user_id t = v"
    by (auto simp: match_token_def Let_def split: if_splits)
  from assms show "store' = map (consume cfg now k a) store"
    by (auto simp: match_token_def Let_def split: if_splits)
qed

lemma consume_fields:
  "key (consume cfg now k a t) = key t" "user_id (consume cfg now k a t) = user_id t"
  "to_alias_type (consume cfg now k a t) = to_alias_type t"
  "created_at (consume cfg now k a t) = created_at t"
  by (simp_all add: consume_def deactivate_def)

lemma consume_active:
  "is_active (consume cfg now k a t) \<longleftrightarrow> is_active t \<and> \<not> matchable cfg now k a t"
  by (auto simp: consume_def deactivate_def)

lemma consumed_not_matchable:
  assumes "now \<le> now'"
  shows "\<not> matchable cfg now' k a (consume cfg now k a x)"
proof
  assume "matchable cfg now' k a (consume cfg now k a x)"
  with assms show False
    by (auto simp: matchable_def consume_fields consume_active)
qed

lemma candidates_after_consumption:
  assumes "now \<le> now'"
  shows "candidates cfg now' k a (map (consume cfg now k a) store) = []"
  using consumed_not_matchable [OF assms]
  by (simp add: candidates_def filter_empty_conv)

lemma match_token_no_candidates:
  "candidates cfg now k a store = [] \<Longrightarrow>
     match_token cfg now k a expected store = Inl InvalidOrExpiredToken"
  by (simp add: match_token_def)

lemma consumed_rows_inactive:
  assumes "t \<in> set (map (consume cfg now k a) store)"
    and "key t = k" and "to_alias_type t = a" and "now \<le> created_at t + expiry_window cfg"
  shows "\<not> is_active t"
proof
  assume active: "is_active t"
  from assms(1) obtain x where x: "t = consume cfg now k a x"
    by auto
  from active assms(2-4) have "matchable cfg now k a t"
    by (simp add: matchable_def)
  with x consumed_not_matchable [of now now cfg k a x] show False
    by simp
qed

text \<open>
  Claim C2. When a presentation succeeds, the store it leaves holds no active row with the
  presented key and alias type that was within its window, and presenting the same key
  again, at the same time or later and with or without an expected user, fails with
  \<^verbatim>\<open>InvalidOrExpiredToken\<close>.
\<close>

theorem match_token_single_use:
  assumes "match_token cfg now k a expected store = Inr (v, store')"
    and "now \<le> now'"
  shows "match_token cfg now' k a expected' store' = Inl InvalidOrExpiredToken
         \<and> (\<forall>t \<in> set store'. key t = k \<and> to_alias_type t = a
                \<and> now \<le> created_at t + expiry_window cfg \<longrightarrow> \<not> is_active t)"
proof -
  note s' = match_token_success(2) [OF assms(1)]
  have "candidates cfg now' k a store' = []"
    unfolding s' by (rule candidates_after_consumption [OF assms(2)])
  then have first: "match_token cfg now' k a expected' store' = Inl InvalidOrExpiredToken"
    by (rule match_token_no_candidates)
  have second: "\<forall>t \<in> set store'. key t = k \<and> to_alias_type t = a
                \<and> now \<le> created_at t + expiry_window cfg \<longrightarrow> \<not> is_active t"
    unfolding s' using consumed_rows_inactive [of _ cfg now k a store] by blast
  from first second show ?thesis by (rule conjI)
qed

theorem match_token_single_use_witness:
  "match_token example_settings 1060 ''482913'' EMAIL None [example_token]
     = Inr (1, [deactivate example_token])
   \<and> (1060::int) \<le> 1060
   \<and> match_token example_settings 1060 ''482913'' EMAIL None [deactivate example_token]
       = Inl InvalidOrExpiredToken"
proof -
  have h: "match_token example_settings 1060 ''482913'' EMAIL None [example_token]
             = Inr (1, [deactivate example_token])"
    by (simp add: match_token_def candidates_def matchable_def consume_def example_token_def
        example_settings_def expiry_window_def)
  from match_token_single_use [OF h, of 1060 None] h show ?thesis by simp
qed

text \<open>
  Claim C8. Whenever more than one active, unexpired row matches the presented key and
  alias type, the matcher fails with \<^verbatim>\<open>AmbiguousToken\<close>: it returns no user and consumes no
  row.
\<close>

theorem match_token_ambiguous:
  assumes "length (candidates cfg now k a store) > 1"
  shows "match_token cfg now k a expected store = Inl AmbiguousToken"
  using assms by (auto simp: match_token_def Let_def)

theorem match_token_ambiguous_witness:
  "length (candidates example_settings 1400 ''482913'' EMAIL [example_token, colliding_token]) > 1
   \<and> match_token example_settings 1400 ''482913'' EMAIL None [example_token, colliding_token]
       = Inl AmbiguousToken"
proof -
  have h: "length (candidates example_settings 1400 ''482913'' EMAIL
             [example_token, colliding_token]) > 1"
    by (simp add: candidates_def matchable_def example_token_def colliding_token_def
        example_settings_def expiry_window_def)
  from match_token_ambiguous [OF h] h show ?thesis by simp
qed







section \<open>Generator\<close>

lemma is_digit_digit_char: "d < 10 \<Longrightarrow> is_digit (digit_char d)"
  unfolding is_digit_def digit_char_def by (rule nth_mem) simp

lemma decimal_digits: "c \<in> set (decimal n) \<Longrightarrow> is_digit c"
proof (induction n rule: decimal.induct)
  case (1 n)
  show ?case
  proof (cases "n < 10")
    case True
    with "1.prems" show ?thesis
      by (simp add: decimal.simps [of n] is_digit_digit_char)
  next
    case False
    with "1.prems" have "c \<in> set (decimal (n div 10)) \<or> c = digit_char (n mod 10)"
      by (auto simp: decimal.simps [of n])
    with False "1.IH" show ?thesis
      by (auto simp: is_digit_digit_char)
  qed
qed

lemma decimal_length: "n < 10 ^ w \<Longrightarrow> 0 < w \<Longrightarrow> length (decimal n) \<le> w"
proof (induction n arbitrary: w rule: decimal.induct)
  case (1 n)
  show ?case
  proof (cases "n < 10")
    case True
    with "1.prems" show ?thesis
      by (simp add: decimal.simps [of n] Suc_leI)
  next
    case False
    from "1.prems"(2) obtain w' where w: "w = Suc w'"
      by (cases w) auto
    with "1.prems"(1) have small: "n div 10 < 10 ^ w'"
      by (simp add: less_mult_imp_div_less mult.commute)
    from False w "1.prems"(1) have "0 < w'"
      by (cases w') auto
    with "1.IH" [OF False small] have "length (decimal (n div 10)) \<le> w'" .
    with False w show ?thesis
      by (simp add: decimal.simps [of n])
  qed
qed

text \<open>
  Claim C10. The key of every issued token has exactly \<^verbatim>\<open>TOKEN_LENGTH\<close> characters, all of
  them digits, whatever the random draw and the configured length are. Whenever the decimal
  numeral of the random value has no more than \<^verbatim>\<open>TOKEN_LENGTH\<close> digits, the key is that numeral
  with zeros on its left.
\<close>

theorem issued_key_fixed_length_numeric:
  assumes "create_callback_token_for_user cfg now r u a store = (token, store')"
  shows "length (key token) = TOKEN_LENGTH cfg
         \<and> (\<forall>c \<in> set (key token). is_digit c)
         \<and> (length (decimal (random_value cfg r)) \<le> TOKEN_LENGTH cfg \<longrightarrow>
              key token
                = replicate (TOKEN_LENGTH cfg - length (decimal (random_value cfg r)))
                    (CHR ''0'') @ decimal (random_value cfg r))"
proof (cases "TOKEN_LENGTH cfg = 0")
  case True
  have "key token = []"
    using issue_token_fields(6) [OF assms] True by (simp add: generate_numeric_token_def)
  moreover have "length (decimal (random_value cfg r)) \<noteq> 0"
    by (simp add: decimal.simps [of "random_value cfg r"])
  ultimately show ?thesis
    using True by simp
next
  case False
  then have positive: "0 < TOKEN_LENGTH cfg"
    by simp
  have k: "key token = zfill (TOKEN_LENGTH cfg) (decimal (random_value cfg r))"
    using issue_token_fields(6) [OF assms] False by (simp add: generate_numeric_token_def)
  have "random_value cfg r < 10 ^ TOKEN_LENGTH cfg"
    by (simp add: random_value_def)
  from decimal_length [OF this positive] have len: "length (key token) = TOKEN_LENGTH cfg"
    by (simp add: k zfill_def)
  have zero: "is_digit (CHR ''0'')"
    by (simp add: is_digit_def)
  have digits: "\<forall>c \<in> set (key token). is_digit c"
  proof
    fix c
    assume "c \<in> set (key token)"
    then have "c = CHR ''0'' \<or> c \<in> set (decimal (random_value cfg r))"
      by (auto simp: k zfill_def)
    with zero decimal_digits [of c "random_value cfg r"] show "is_digit c"
      by blast
  qed
  have pad: "key token
               = replicate (TOKEN_LENGTH cfg - length (decimal (random_value cfg r)))
                   (CHR ''0'') @ decimal (random_value cfg r)"
    by (simp add: k zfill_def)
  from len digits pad show ?thesis by blast
qed

lemma padded_issue:
  "create_callback_token_for_user example_settings 1000 7 example_user EMAIL []
     = (example_token\<lparr>key := ''000007''\<rparr>, [example_token\<lparr>key := ''000007''\<rparr>])"
  by (simp add: create_callback_token_for_user_def padded_key example_user_def
      example_token_def alias_value_def Let_def)

lemma padded_value: "decimal (random_value example_settings 7) = ''7''"
  by (simp add: random_value_def example_settings_def padded_decimal)

theorem issued_key_fixed_length_numeric_witness:
  "create_callback_token_for_user example_settings 1000 7 example_user EMAIL []
     = (example_token\<lparr>key := ''000007''\<rparr>, [example_token\<lparr>key := ''000007''\<rparr>])
   \<and> key (example_token\<lparr>key := ''000007''\<rparr>) = ''000007''
   \<and> length (key (example_token\<lparr>key := ''000007''\<rparr>)) = TOKEN_LENGTH example_settings
   \<and> list_all is_digit (key (example_token\<lparr>key := ''000007''\<rparr>))
   \<and> length (decimal (random_value example_settings 7)) \<le> TOKEN_LENGTH example_settings
   \<and> key (example_token\<lparr>key := ''000007''\<rparr>)
       = replicate (TOKEN_LENGTH example_settings
                      - length (decimal (random_value example_settings 7))) (CHR ''0'')
           @ decimal (random_value example_settings 7)"
proof -
  have short: "length (decimal (random_value example_settings 7))
                 \<le> TOKEN_LENGTH example_settings"
    unfolding padded_value by (simp add: example_settings_def)
  have k: "key (example_token\<lparr>key := ''000007''\<rparr>) = ''000007''"
    by simp
  from issued_key_fixed_length_numeric [OF padded_issue] padded_issue short k
  show ?thesis unfolding list_all_iff by blast
qed

section \<open>Issuance and the store invariant\<close>













end
